theory Spec2Isabelle
  imports Main "HOL-Library.Word"
begin

unbundle bit_operations_syntax

section \<open>The mock registry of \<^verbatim>\<open>mock-grpc-server.go\<close>\<close>

text \<open>
  The program is one Go file: a \<^verbatim>\<open>MockRegistry\<close> with \<^verbatim>\<open>LoadRegistry\<close>,
  \<^verbatim>\<open>GetResponse\<close> and \<^verbatim>\<open>inferTypeName\<close>. Everything else it calls is library code:
  \<^verbatim>\<open>crypto/sha256\<close>, \<^verbatim>\<open>fmt\<close>, \<^verbatim>\<open>path/filepath\<close>, \<^verbatim>\<open>os\<close>, \<^verbatim>\<open>encoding/json\<close>,
  \<^verbatim>\<open>protojson\<close> and \<^verbatim>\<open>proto\<close>.

  \<^item> A Go \<^verbatim>\<open>string\<close> or \<^verbatim>\<open>[]byte\<close> is a sequence of bytes: a \<^typ>\<open>string\<close> here
    (\<^typ>\<open>char\<close> is a byte).
  \<^item> SHA-256, the \<^verbatim>\<open>%x\<close> verb, \<^verbatim>\<open>filepath.Base\<close> and \<^verbatim>\<open>filepath.Ext\<close> (the Unix
    build: the separator is \<^verbatim>\<open>/\<close>, there are no volume names) are written out.
  \<^item> The protobuf marshaller and decoder, \<^verbatim>\<open>filepath.Join\<close> and the JSON scanner are
    parameters of the model (a record \<open>library\<close>): the theorems hold for every choice of them.
  \<^item> Messages live in a heap (a list of cells, an address is an index), since the registry
    holds pointers to prototypes and to cached responses.
  \<^item> The file system is a map from paths to contents, and every call of \<^verbatim>\<open>os.ReadFile\<close>
    is appended to a log, so that "no file is read" is a statement about the log.
\<close>

subsection \<open>SHA-256 (\<^verbatim>\<open>sha256.Sum256\<close>) and \<^verbatim>\<open>%x\<close>\<close>

text \<open>
  \<^verbatim>\<open>sha256.Sum256\<close> as Go's portable implementation computes it: \<^verbatim>\<open>checkSum\<close> pads the
  message, \<^verbatim>\<open>blockGeneric\<close> consumes it 64 bytes at a time, filling the array \<^verbatim>\<open>w\<close> of 64
  words and running the 64 rounds on the eight state words; a rotation is two shifts and an
  \<^verbatim>\<open>|\<close>, as \<^verbatim>\<open>bits.RotateLeft32\<close> is.
\<close>

type_synonym byte = "8 word"
type_synonym u32 = "32 word"
type_synonym u64 = "64 word"
type_synonym st256 = "u32 \<times> u32 \<times> u32 \<times> u32 \<times> u32 \<times> u32 \<times> u32 \<times> u32"

text \<open>The 64 round constants, in rows of eight.\<close>

definition K256 :: "u32 list" where
  "K256 = concat [
    [0x428a2f98, 0x71374491, 0xb5c0fbcf, 0xe9b5dba5, 0x3956c25b, 0x59f111f1, 0x923f82a4, 0xab1c5ed5],
    [0xd807aa98, 0x12835b01, 0x243185be, 0x550c7dc3, 0x72be5d74, 0x80deb1fe, 0x9bdc06a7, 0xc19bf174],
    [0xe49b69c1, 0xefbe4786, 0x0fc19dc6, 0x240ca1cc, 0x2de92c6f, 0x4a7484aa, 0x5cb0a9dc, 0x76f988da],
    [0x983e5152, 0xa831c66d, 0xb00327c8, 0xbf597fc7, 0xc6e00bf3, 0xd5a79147, 0x06ca6351, 0x14292967],
    [0x27b70a85, 0x2e1b2138, 0x4d2c6dfc, 0x53380d13, 0x650a7354, 0x766a0abb, 0x81c2c92e, 0x92722c85],
    [0xa2bfe8a1, 0xa81a664b, 0xc24b8b70, 0xc76c51a3, 0xd192e819, 0xd6990624, 0xf40e3585, 0x106aa070],
    [0x19a4c116, 0x1e376c08, 0x2748774c, 0x34b0bcb5, 0x391c0cb3, 0x4ed8aa4a, 0x5b9cca4f, 0x682e6ff3],
    [0x748f82ee, 0x78a5636f, 0x84c87814, 0x8cc70208, 0x90befffa, 0xa4506ceb, 0xbef9a3f7, 0xc67178f2]]"

definition init256 :: st256 where
  "init256 = (0x6a09e667, 0xbb67ae85, 0x3c6ef372, 0xa54ff53a,
              0x510e527f, 0x9b05688c, 0x1f83d9ab, 0x5be0cd19)"

definition rotr :: "nat \<Rightarrow> u32 \<Rightarrow> u32" where
  "rotr n x = (drop_bit n x) OR (push_bit (32 - n) x)"

text \<open>
  Padding: the byte 0x80, zeros up to 56 modulo 64, and \<^verbatim>\<open>len << 3\<close> (a \<^verbatim>\<open>uint64\<close>) as eight
  bytes, big-endian.
\<close>

definition pad256 :: "byte list \<Rightarrow> byte list" where
  "pad256 bs = (let n = length bs; bits = push_bit 3 (of_nat n :: u64) in
     bs @ [0x80] @ replicate ((119 - n mod 64) mod 64) 0 @
     map (\<lambda>i. ucast (drop_bit (8 * (7 - i)) bits)) [0..<8])"

fun be32 :: "byte list \<Rightarrow> u32 list" where
  "be32 (a # b # c # d # r) =
     (push_bit 24 (ucast a) OR push_bit 16 (ucast b) OR push_bit 8 (ucast c) OR ucast d) # be32 r"
| "be32 _ = []"

text \<open>The message schedule: \<open>schedule 48\<close> extends the 16 words of a block to 64.\<close>

fun schedule :: "nat \<Rightarrow> u32 list \<Rightarrow> u32 list" where
  "schedule 0 w = w"
| "schedule (Suc k) w = (let n = length w;
      v1 = w ! (n - 2); v0 = w ! (n - 15);
      t1 = rotr 17 v1 XOR rotr 19 v1 XOR drop_bit 10 v1;
      t2 = rotr 7 v0 XOR rotr 18 v0 XOR drop_bit 3 v0
    in schedule k (w @ [t1 + w ! (n - 7) + t2 + w ! (n - 16)]))"

definition round256 :: "st256 \<Rightarrow> u32 \<times> u32 \<Rightarrow> st256" where
  "round256 s kw = (case s of (a, b, c, d, e, f, g, h) \<Rightarrow> (let
      t1 = h + (rotr 6 e XOR rotr 11 e XOR rotr 25 e) + ((e AND f) XOR (NOT e AND g))
             + fst kw + snd kw;
      t2 = (rotr 2 a XOR rotr 13 a XOR rotr 22 a) + ((a AND b) XOR (a AND c) XOR (b AND c))
    in (t1 + t2, a, b, c, d + t1, e, f, g)))"

definition add256 :: "st256 \<Rightarrow> st256 \<Rightarrow> st256" where
  "add256 s t = (case s of (a, b, c, d, e, f, g, h) \<Rightarrow>
     case t of (a', b', c', d', e', f', g', h') \<Rightarrow>
       (a + a', b + b', c + c', d + d', e + e', f + f', g + g', h + h'))"

definition block256 :: "st256 \<Rightarrow> byte list \<Rightarrow> st256" where
  "block256 h p = add256 h (foldl round256 h (zip K256 (schedule 48 (be32 p))))"

function blocks256 :: "st256 \<Rightarrow> byte list \<Rightarrow> st256" where
  "blocks256 h p =
     (if length p < 64 then h else blocks256 (block256 h (take 64 p)) (drop 64 p))"
  by pat_completeness auto
termination
  by (relation "measure (\<lambda>(h, p). length p)") auto

declare blocks256.simps [simp del]

text \<open>\<^verbatim>\<open>sha256.Sum256\<close> returns a \<^verbatim>\<open>[32]byte\<close>: the eight state words, big-endian.\<close>

definition word_bytes :: "u32 \<Rightarrow> byte list" where
  "word_bytes w = [ucast (drop_bit 24 w), ucast (drop_bit 16 w), ucast (drop_bit 8 w), ucast w]"

definition Sum256 :: "byte list \<Rightarrow> byte list" where
  "Sum256 bs = (case blocks256 init256 (pad256 bs) of (a, b, c, d, e, f, g, h) \<Rightarrow>
     concat (map word_bytes [a, b, c, d, e, f, g, h]))"

text \<open>\<^verbatim>\<open>fmt.Sprintf("%x", b)\<close> of a byte array: two lowercase hexadecimal digits a byte.\<close>

definition hexdigit :: "byte \<Rightarrow> char" where
  "hexdigit n = ''0123456789abcdef'' ! unat n"

definition hex :: "byte list \<Rightarrow> string" where
  "hex bs = concat (map (\<lambda>b. [hexdigit (drop_bit 4 b), hexdigit (b AND 0xf)]) bs)"

subsection \<open>SHA-256 as FIPS 180-4 states it\<close>


















subsection \<open>\<^verbatim>\<open>filepath.Base\<close>, \<^verbatim>\<open>filepath.Ext\<close> and \<^verbatim>\<open>inferTypeName\<close>\<close>

definition IsPathSeparator :: "char \<Rightarrow> bool" where
  "IsPathSeparator c = (c = CHR ''/'')"

text \<open>
  \<^verbatim>\<open>for len(path) > 0 && os.IsPathSeparator(path[len(path)-1]) { path = path[0 : len(path)-1] }\<close>
\<close>

function strip_trailing :: "string \<Rightarrow> string" where
  "strip_trailing path =
     (if 0 < length path \<and> IsPathSeparator (path ! (length path - 1))
      then strip_trailing (take (length path - 1) path) else path)"
  by pat_completeness auto
termination
  by (relation "measure length") auto

declare strip_trailing.simps [simp del]

text \<open>
  \<^verbatim>\<open>i := len(path) - 1; for i >= 0 && !os.IsPathSeparator(path[i]) { i-- }\<close>: the counter here is
  \<open>i + 1\<close>, so that the result is the number of bytes up to and including the last separator
  (0 when there is none), and \<^verbatim>\<open>path[i+1:]\<close> is \<open>drop\<close> of it.
\<close>

fun last_element_start :: "string \<Rightarrow> nat \<Rightarrow> nat" where
  "last_element_start path 0 = 0"
| "last_element_start path (Suc i) =
     (if IsPathSeparator (path ! i) then Suc i else last_element_start path i)"

definition Base :: "string \<Rightarrow> string" where
  "Base path =
     (if path = [] then ''.''
      else let path1 = strip_trailing path;
               path2 = drop (last_element_start path1 (length path1)) path1
           in if path2 = [] then ''/'' else path2)"

text \<open>
  \<^verbatim>\<open>for i := len(path) - 1; i >= 0 && !os.IsPathSeparator(path[i]); i-- {
       if path[i] == '.' { return path[i:] } }; return ""\<close>
\<close>

fun ext_from :: "string \<Rightarrow> nat \<Rightarrow> string" where
  "ext_from path 0 = []"
| "ext_from path (Suc i) =
     (if IsPathSeparator (path ! i) then []
      else if path ! i = CHR ''.'' then drop i path
      else ext_from path i)"

definition Ext :: "string \<Rightarrow> string" where
  "Ext path = ext_from path (length path)"

text \<open>\<^verbatim>\<open>base[:len(base)-len(filepath.Ext(base))]\<close>\<close>

definition inferTypeName :: "string \<Rightarrow> string" where
  "inferTypeName filename =
     (let base = Base filename in take (length base - length (Ext base)) base)"

text \<open>
  The spec's wording, for comparison: the final path component (its last element, trailing
  separators not counting; \<^verbatim>\<open>.\<close> for the empty name and \<^verbatim>\<open>/\<close> for a name of separators
  only), with the file extension (the suffix that starts at its last dot) taken off.
\<close>

definition final_component :: "string \<Rightarrow> string" where
  "final_component name =
     (if name = [] then ''.''
      else let trimmed = rev (dropWhile (\<lambda>c. c = CHR ''/'') (rev name))
           in if trimmed = [] then ''/''
              else rev (takeWhile (\<lambda>c. c \<noteq> CHR ''/'') (rev trimmed)))"

definition strip_extension :: "string \<Rightarrow> string" where
  "strip_extension s =
     (if CHR ''.'' \<in> set s then rev (tl (dropWhile (\<lambda>c. c \<noteq> CHR ''.'') (rev s))) else s)"

subsection \<open>Errors, the libraries, the heap and the file system\<close>

text \<open>
  The Go code returns library errors as they are and builds two of its own with
  \<^verbatim>\<open>fmt.Errorf\<close>. \<open>Errorf msg\<close> is an error made by \<^verbatim>\<open>fmt.Errorf\<close> with the formatted text
  \<open>msg\<close>; \<open>PathError p\<close> is the \<^verbatim>\<open>*fs.PathError\<close> of \<^verbatim>\<open>os.ReadFile\<close> for the path \<open>p\<close>;
  \<open>ProtoError e\<close> is the error \<open>e\<close> of \<^verbatim>\<open>protojson\<close>; \<open>JsonError e\<close> is the error \<open>e\<close> of
  \<^verbatim>\<open>encoding/json\<close>. \<open>NilPanic\<close> is no error value: it is the outcome of a call that panics on
  a nil message and so does not return.
\<close>

datatype error =
  Errorf string | PathError string | ProtoError string | JsonError string | NilPanic

datatype json =
    JNull | JBool bool | JNumber string | JString string
  | JArray "json list" | JObject "(string \<times> json) list"

text \<open>
  The library functions the model does not write out:
  \<^item> \<open>Marshal\<close>: \<^verbatim>\<open>protojson.MarshalOptions{EmitUnpopulated: true}.Marshal\<close>, the JSON bytes
    of a request or an error;
  \<^item> \<open>Unmarshal\<close>: \<^verbatim>\<open>protojson.Unmarshal(b, m)\<close>, from the bytes and the message it is given
    (which carries its type) to an error, if any, and the content the message is left with;
  \<^item> \<open>Join\<close>: \<^verbatim>\<open>filepath.Join\<close> of two elements;
  \<^item> \<open>Scan\<close>: the scanner of \<^verbatim>\<open>encoding/json\<close>, from bytes to a JSON value or a syntax
    error.
\<close>

record ('req, 'msg) library =
  Marshal :: "'req \<Rightarrow> string + string"
  Unmarshal :: "string \<Rightarrow> 'msg \<Rightarrow> string option \<times> 'msg"
  Join :: "string \<Rightarrow> string \<Rightarrow> string"
  Scan :: "string \<Rightarrow> string + json"

type_synonym addr = nat

record 'msg world =
  heap :: "'msg list"
  files :: "string \<rightharpoonup> string"
  reads :: "string list"

text \<open>\<^verbatim>\<open>os.ReadFile(name)\<close>: the content, or a \<^verbatim>\<open>*fs.PathError\<close>; the call is logged.\<close>

definition os_ReadFile :: "string \<Rightarrow> 'msg world \<Rightarrow> (error + string) \<times> 'msg world" where
  "os_ReadFile name w =
     ((case files w name of None \<Rightarrow> Inl (PathError name) | Some data \<Rightarrow> Inr data),
      w\<lparr>reads := reads w @ [name]\<rparr>)"

text \<open>
  An address below the length of the heap is a live message; any other address is a nil
  message (a nil \<^verbatim>\<open>proto.Message\<close>, or a nil pointer of a message type).

  \<^verbatim>\<open>proto.Clone(m)\<close>: a new cell holding a deep copy of the message at \<open>m\<close>; the clone of a
  nil message is nil, and nothing is allocated.
\<close>

definition proto_Clone :: "addr \<Rightarrow> 'msg world \<Rightarrow> addr \<times> 'msg world" where
  "proto_Clone m w =
     (if m < length (heap w) then (length (heap w), w\<lparr>heap := heap w @ [heap w ! m]\<rparr>)
      else (m, w))"

text \<open>
  \<^verbatim>\<open>protojson.Unmarshal(b, m)\<close> writes into the message at \<open>m\<close>, also when it fails, and
  returns the decoder's error, if any. On a nil message it panics.
\<close>

definition protojson_Unmarshal ::
  "('req, 'msg) library \<Rightarrow> string \<Rightarrow> addr \<Rightarrow> 'msg world \<Rightarrow> error option \<times> 'msg world" where
  "protojson_Unmarshal lib b m w =
     (if m < length (heap w) then
        (case Unmarshal lib b (heap w ! m) of
           (err, content) \<Rightarrow> (map_option ProtoError err, w\<lparr>heap := (heap w)[m := content]\<rparr>))
      else (Some NilPanic, w))"

subsection \<open>\<^verbatim>\<open>MockRegistry\<close> and \<^verbatim>\<open>LoadRegistry\<close>\<close>

record registry =
  Mapping :: "string \<rightharpoonup> string"
  ResponseDir :: string
  ResponseTypes :: "string \<rightharpoonup> addr"
  cache :: "string \<rightharpoonup> addr"

text \<open>
  \<^verbatim>\<open>json.Unmarshal(data, &mapping)\<close> with \<^verbatim>\<open>mapping\<close> a nil \<^verbatim>\<open>map[string]string\<close>. By the
  rules of \<^verbatim>\<open>encoding/json\<close>: bytes that are not valid JSON give a syntax error; the value
  \<^verbatim>\<open>null\<close> leaves the map nil and is no error; an object fills the map, member by member, a
  later duplicate key replacing an earlier one; a member value that is a string is stored, a
  \<^verbatim>\<open>null\<close> member value stores the zero value \<^verbatim>\<open>""\<close>; any other member value, and any other
  top-level value, is an \<^verbatim>\<open>UnmarshalTypeError\<close>. A lookup in a nil map finds nothing, so the
  nil map is the empty map.
\<close>

fun string_member :: "json \<Rightarrow> string option" where
  "string_member (JString s) = Some s"
| "string_member JNull = Some []"
| "string_member _ = None"

fun map_members :: "(string \<times> json) list \<Rightarrow> (string \<rightharpoonup> string) \<Rightarrow> (string \<rightharpoonup> string) option" where
  "map_members [] m = Some m"
| "map_members ((k, v) # kvs) m =
     (case string_member v of
        None \<Rightarrow> None
      | Some s \<Rightarrow> map_members kvs (m(k \<mapsto> s)))"

definition json_Unmarshal :: "('req, 'msg) library \<Rightarrow> string \<Rightarrow> error + (string \<rightharpoonup> string)" where
  "json_Unmarshal lib data =
     (case Scan lib data of
        Inl e \<Rightarrow> Inl (JsonError e)
      | Inr JNull \<Rightarrow> Inr Map.empty
      | Inr (JObject kvs) \<Rightarrow>
          (case map_members kvs Map.empty of
             None \<Rightarrow> Inl (JsonError ''json: cannot unmarshal into Go value of type string'')
           | Some m \<Rightarrow> Inr m)
      | Inr _ \<Rightarrow>
          Inl (JsonError ''json: cannot unmarshal into Go value of type map[string]string''))"

definition LoadRegistry ::
  "('req, 'msg) library \<Rightarrow> string \<Rightarrow> string \<Rightarrow> (string \<rightharpoonup> addr) \<Rightarrow> 'msg world
     \<Rightarrow> (error + registry) \<times> 'msg world" where
  "LoadRegistry lib mappingFilePath responseDir responseTypes w =
     (case os_ReadFile mappingFilePath w of
        (Inl err, w1) \<Rightarrow> (Inl err, w1)
      | (Inr data, w1) \<Rightarrow>
          (case json_Unmarshal lib data of
             Inl err \<Rightarrow> (Inl err, w1)
           | Inr mapping \<Rightarrow>
               (Inr \<lparr>Mapping = mapping, ResponseDir = responseDir,
                     ResponseTypes = responseTypes, cache = Map.empty\<rparr>, w1)))"

text \<open>
  Three readings of a scanned mapping file, for comparison with \<open>json_Unmarshal\<close>:
  \<open>flat_string_object\<close> is the spec's "flat JSON object of string to string pairs";
  \<open>accepted_mapping\<close> is \<^verbatim>\<open>null\<close>, or an object whose member values are strings or
  \<^verbatim>\<open>null\<close>; \<open>mapping_table\<close> is the table an accepted value stands for, the last of
  several members with one key counting.
\<close>

definition flat_string_object :: "json \<Rightarrow> bool" where
  "flat_string_object v =
     (case v of
        JObject kvs \<Rightarrow> list_all (\<lambda>kv. case snd kv of JString s \<Rightarrow> True | _ \<Rightarrow> False) kvs
      | _ \<Rightarrow> False)"

definition accepted_mapping :: "json \<Rightarrow> bool" where
  "accepted_mapping v =
     (case v of
        JNull \<Rightarrow> True
      | JObject kvs \<Rightarrow>
          list_all (\<lambda>kv. case snd kv of JString s \<Rightarrow> True | JNull \<Rightarrow> True | _ \<Rightarrow> False) kvs
      | _ \<Rightarrow> False)"

definition member_text :: "json \<Rightarrow> string" where
  "member_text v = (case v of JString s \<Rightarrow> s | _ \<Rightarrow> [])"

definition mapping_table :: "json \<Rightarrow> (string \<rightharpoonup> string)" where
  "mapping_table v =
     (case v of
        JObject kvs \<Rightarrow> map_of (rev (map (\<lambda>kv. (fst kv, member_text (snd kv))) kvs))
      | _ \<Rightarrow> Map.empty)"

subsection \<open>\<^verbatim>\<open>GetResponse\<close>\<close>

text \<open>
  Lines 44 to 50: the request is marshalled with \<^verbatim>\<open>EmitUnpopulated\<close>, hashed with SHA-256
  and printed with \<^verbatim>\<open>%x\<close>; a marshalling error is returned as it is.
\<close>

definition fingerprint :: "('req, 'msg) library \<Rightarrow> 'req \<Rightarrow> error + string" where
  "fingerprint lib req =
     (case Marshal lib req of
        Inl err \<Rightarrow> Inl (ProtoError err)
      | Inr jsonBytes \<Rightarrow> Inr (hex (Sum256 (map of_char jsonBytes))))"

text \<open>
  Lines 51 to 78, in the order of the source: the cache, the mapping, the file, the type,
  the clone, the decoding, the store into the cache. The result is the returned error or
  message (or \<open>NilPanic\<close>, when the call panics), the registry (only its cache can differ)
  and the world.
\<close>

definition GetResponse ::
  "('req, 'msg) library \<Rightarrow> registry \<Rightarrow> 'req \<Rightarrow> 'msg world
     \<Rightarrow> (error + addr) \<times> registry \<times> 'msg world" where
  "GetResponse lib r req w =
     (case fingerprint lib req of
        Inl err \<Rightarrow> (Inl err, r, w)
      | Inr hash \<Rightarrow>
     (case cache r hash of
        Some val \<Rightarrow> (Inr val, r, w)
      | None \<Rightarrow>
     (case Mapping r hash of
        None \<Rightarrow> (Inl (Errorf (''no mock response found for hash: '' @ hash)), r, w)
      | Some responseFile \<Rightarrow>
     (case os_ReadFile (Join lib (ResponseDir r) responseFile) w of
        (Inl err, w1) \<Rightarrow> (Inl err, r, w1)
      | (Inr respData, w1) \<Rightarrow>
     (case ResponseTypes r (inferTypeName responseFile) of
        None \<Rightarrow>
          (Inl (Errorf (''unknown response type: '' @ inferTypeName responseFile)), r, w1)
      | Some typeTemplate \<Rightarrow>
     (case proto_Clone typeTemplate w1 of
        (response, w2) \<Rightarrow>
     (case protojson_Unmarshal lib respData response w2 of
        (Some err, w3) \<Rightarrow> (Inl err, r, w3)
      | (None, w3) \<Rightarrow>
          (Inr response, r\<lparr>cache := (cache r)(hash \<mapsto> response)\<rparr>, w3))))))))"

text \<open>
  Every prototype the registry holds is a live message. In Go this is what a non-nil
  \<^verbatim>\<open>proto.Message\<close> in \<^verbatim>\<open>ResponseTypes\<close> is.
\<close>

definition prototypes_allocated :: "registry \<Rightarrow> 'msg world \<Rightarrow> bool" where
  "prototypes_allocated r w = (\<forall>t p. ResponseTypes r t = Some p \<longrightarrow> p < length (heap w))"

subsection \<open>An instance of the libraries, and a small world\<close>

text \<open>
  The theorems below hold for every \<open>library\<close>. To run the model, this instance is used:
  requests are lists of named fields of a message with the schema \<open>id, name\<close>, marshalled
  in the order of the schema with every field emitted (an absent one as the empty string);
  a message is its type name and the payload decoded into it, and the decoder accepts the
  payloads that are a JSON object on the face of it; the scanner knows three texts.
\<close>

type_synonym example_request = "(string \<times> string) list"
type_synonym example_message = "string \<times> string"

definition quoted :: "string \<Rightarrow> string" where
  "quoted s = [CHR 0x22] @ s @ [CHR 0x22]"

definition field_value :: "example_request \<Rightarrow> string \<Rightarrow> string" where
  "field_value req k = (case map_of req k of None \<Rightarrow> [] | Some v \<Rightarrow> v)"

definition example_Marshal :: "example_request \<Rightarrow> string + string" where
  "example_Marshal req =
     Inr (''{'' @ quoted ''id'' @ '':'' @ quoted (field_value req ''id'') @ '','' @
          quoted ''name'' @ '':'' @ quoted (field_value req ''name'') @ ''}'')"

definition example_Unmarshal :: "string \<Rightarrow> example_message \<Rightarrow> string option \<times> example_message" where
  "example_Unmarshal b m =
     (if b \<noteq> [] \<and> hd b = CHR ''{'' \<and> last b = CHR ''}'' then (None, (fst m, b))
      else (Some ''proto: syntax error (line 1:1): unexpected token'', (fst m, [])))"

definition fp_ada :: string where
  "fp_ada = ''9d58be58355c16c495b8e9613f823be71a0a26aac6f05c408a385595dffb3918''"

definition mapping_text :: string where
  "mapping_text = ''{'' @ quoted fp_ada @ '': '' @ quoted ''GetUser.json'' @ ''}''"

definition example_Scan :: "string \<Rightarrow> string + json" where
  "example_Scan s =
     (if s = ''null'' then Inr JNull
      else if s = ''{}'' then Inr (JObject [])
      else if s = mapping_text then Inr (JObject [(fp_ada, JString ''GetUser.json'')])
      else Inl ''invalid character looking for beginning of value'')"

definition example_library :: "(example_request, example_message) library" where
  "example_library =
     \<lparr>Marshal = example_Marshal, Unmarshal = example_Unmarshal,
      Join = (\<lambda>dir name. dir @ ''/'' @ name), Scan = example_Scan\<rparr>"

definition request_ada :: example_request where
  "request_ada = [(''name'', ''Ada''), (''id'', ''42'')]"

definition request_ada' :: example_request where
  "request_ada' = [(''id'', ''42''), (''name'', ''Ada'')]"

definition request_bob :: example_request where
  "request_bob = [(''id'', ''7'')]"

definition fp_bob :: string where
  "fp_bob = ''a3e414667288145f6c165ce98af380217df7dcdb3556431499680fc71b4d9cfb''"

text \<open>
  One prototype, of type \<open>GetUser\<close>, in cell 0. The files: the mapping file; a mapping
  file that holds \<^verbatim>\<open>null\<close>; the artifact of \<open>GetUser\<close>; an artifact \<^verbatim>\<open>Ghost.json\<close>, for
  which no type is registered; and bytes that are no JSON, under two artifact names.
  \<open>example_registry\<close> maps the fingerprint of \<open>request_ada\<close> to the artifact it is given;
  \<open>account_registry\<close> maps that of \<open>request_bob\<close> to the second bad artifact and registers
  the prototype under the type name of that artifact.
\<close>

definition example_types :: "string \<rightharpoonup> addr" where
  "example_types = [''GetUser'' \<mapsto> 0]"

definition example_world :: "example_message world" where
  "example_world =
     \<lparr>heap = [(''GetUser'', [])],
      files = [''mapping.json'' \<mapsto> mapping_text,
               ''null.json'' \<mapsto> ''null'',
               ''responses/GetUser.json'' \<mapsto> ''{'' @ quoted ''id'' @ '':42}'',
               ''responses/Ghost.json'' \<mapsto> ''{}'',
               ''responses/bad/GetUser.json'' \<mapsto> ''<html>'',
               ''responses/bad/Account.txt'' \<mapsto> ''<html>''],
      reads = []\<rparr>"

definition example_registry :: "string \<Rightarrow> registry" where
  "example_registry artifact =
     \<lparr>Mapping = [fp_ada \<mapsto> artifact], ResponseDir = ''responses'',
      ResponseTypes = example_types, cache = Map.empty\<rparr>"

definition account_registry :: registry where
  "account_registry =
     \<lparr>Mapping = [fp_bob \<mapsto> ''bad/Account.txt''], ResponseDir = ''responses'',
      ResponseTypes = [''Account'' \<mapsto> 0], cache = Map.empty\<rparr>"

section \<open>Lemmas\<close>

subsection \<open>The digest and its rendering\<close>







subsection \<open>\<open>Sum256\<close> is SHA-256, \<open>hex\<close> is lowercase hexadecimal\<close>
























subsection \<open>Path names\<close>

lemma strip_trailing_eq: "strip_trailing p = rev (dropWhile (\<lambda>c. c = CHR ''/'') (rev p))"
proof (induction p rule: strip_trailing.induct)
  case (1 path)
  show ?case
  proof (cases "0 < length path \<and> IsPathSeparator (path ! (length path - 1))")
    case True
    then obtain xs where xs: "path = xs @ [CHR ''/'']"
      by (cases path rule: rev_cases) (auto simp: IsPathSeparator_def)
    from True 1 have "strip_trailing (take (length path - 1) path)
        = rev (dropWhile (\<lambda>c. c = CHR ''/'') (rev (take (length path - 1) path)))"
      by blast
    with True xs show ?thesis
      by (subst strip_trailing.simps) (simp add: IsPathSeparator_def)
  next
    case False
    then have "path = [] \<or> (\<exists>xs c. path = xs @ [c] \<and> c \<noteq> CHR ''/'')"
      by (cases path rule: rev_cases) (auto simp: IsPathSeparator_def)
    with False show ?thesis
      by (subst strip_trailing.simps) (auto simp: IsPathSeparator_def)
  qed
qed

lemma last_element_start_append:
  "n \<le> length xs \<Longrightarrow> last_element_start (xs @ ys) n = last_element_start xs n"
  by (induction n) (simp_all add: nth_append)

lemma last_element_eq:
  "drop (last_element_start p (length p)) p = rev (takeWhile (\<lambda>c. c \<noteq> CHR ''/'') (rev p))"
proof (induction p rule: rev_induct)
  case Nil
  show ?case by simp
next
  case (snoc c xs)
  show ?case
  proof (cases "c = CHR ''/''")
    case True
    then show ?thesis by (simp add: IsPathSeparator_def)
  next
    case False
    have "last_element_start (xs @ [c]) (length xs) = last_element_start xs (length xs)"
      by (rule last_element_start_append) simp
    moreover have "last_element_start xs (length xs) \<le> length xs"
      by (induction xs rule: rev_induct) (simp_all add: last_element_start_append)
    ultimately show ?thesis using False snoc by (simp add: IsPathSeparator_def)
  qed
qed

lemma last_element_nonempty:
  "takeWhile (\<lambda>c. c \<noteq> CHR ''/'') (dropWhile (\<lambda>c. c = CHR ''/'') xs) = []
     \<longleftrightarrow> dropWhile (\<lambda>c. c = CHR ''/'') xs = []"
proof (cases "dropWhile (\<lambda>c. c = CHR ''/'') xs")
  case Nil
  then show ?thesis by (simp del: dropWhile_eq_Nil_conv)
next
  case (Cons y ys)
  then have "\<not> (hd (dropWhile (\<lambda>c. c = CHR ''/'') xs) = CHR ''/'')"
    using hd_dropWhile [of "\<lambda>c. c = CHR ''/''" xs] by simp
  with Cons show ?thesis by simp
qed

lemma Base_final_component: "Base p = final_component p"
  by (simp add: Base_def final_component_def Let_def strip_trailing_eq last_element_eq
      last_element_nonempty)

lemma final_component_cases:
  "final_component p = ''/'' \<or> CHR ''/'' \<notin> set (final_component p)"
proof -
  have "CHR ''/'' \<notin> set (takeWhile (\<lambda>c. c \<noteq> CHR ''/'') xs)" for xs
    by (induction xs) auto
  then show ?thesis by (simp add: final_component_def Let_def)
qed

lemma ext_from_append:
  "n \<le> length xs \<Longrightarrow>
     ext_from (xs @ ys) n = (if ext_from xs n = [] then [] else ext_from xs n @ ys)"
  by (induction n) (auto simp: nth_append)

lemma length_ext_from: "n \<le> length s \<Longrightarrow> length (ext_from s n) \<le> length s"
  by (induction n) auto

lemma length_Ext: "length (Ext s) \<le> length s"
  by (simp add: Ext_def length_ext_from)

lemma Ext_Nil_iff: "CHR ''/'' \<notin> set s \<Longrightarrow> Ext s = [] \<longleftrightarrow> CHR ''.'' \<notin> set s"
proof (induction s rule: rev_induct)
  case Nil
  show ?case by (simp add: Ext_def)
next
  case (snoc c xs)
  then show ?case
    by (auto simp: Ext_def IsPathSeparator_def ext_from_append)
qed

lemma strip_Ext:
  "CHR ''/'' \<notin> set s \<Longrightarrow> take (length s - length (Ext s)) s = strip_extension s"
proof (induction s rule: rev_induct)
  case Nil
  show ?case by (simp add: strip_extension_def)
next
  case (snoc c xs)
  then have sep: "CHR ''/'' \<notin> set xs" and c: "c \<noteq> CHR ''/''" by auto
  show ?case
  proof (cases "c = CHR ''.''")
    case True
    then show ?thesis by (simp add: Ext_def strip_extension_def IsPathSeparator_def)
  next
    case False
    have E: "Ext (xs @ [c]) = (if Ext xs = [] then [] else Ext xs @ [c])"
      using c False by (simp add: Ext_def IsPathSeparator_def ext_from_append)
    show ?thesis
    proof (cases "Ext xs = []")
      case True
      with sep have "CHR ''.'' \<notin> set xs" by (simp add: Ext_Nil_iff)
      with True E False show ?thesis by (simp add: strip_extension_def)
    next
      case nonempty: False
      with sep have dot: "CHR ''.'' \<in> set xs" by (simp add: Ext_Nil_iff)
      have "take (length (xs @ [c]) - length (Ext (xs @ [c]))) (xs @ [c])
          = take (length xs - length (Ext xs)) xs"
        using nonempty E length_Ext [of xs] by simp
      also have "\<dots> = strip_extension xs" using snoc.IH sep by simp
      also have "\<dots> = strip_extension (xs @ [c])"
        using dot False by (simp add: strip_extension_def)
      finally show ?thesis .
    qed
  qed
qed

lemma inferTypeName_spec: "inferTypeName f = strip_extension (final_component f)"
proof -
  consider "final_component f = ''/''" | "CHR ''/'' \<notin> set (final_component f)"
    using final_component_cases by blast
  then show ?thesis
  proof cases
    case 1
    then show ?thesis
      by (simp add: inferTypeName_def Base_final_component Ext_def strip_extension_def
          IsPathSeparator_def)
  next
    case 2
    then show ?thesis
      by (simp add: inferTypeName_def Base_final_component Let_def strip_Ext)
  qed
qed

lemma plain_name:
  assumes "CHR ''/'' \<notin> set f" and "f \<noteq> []"
  shows "final_component f = f"
proof -
  have d: "dropWhile (\<lambda>c. c = CHR ''/'') (rev f) = rev f"
    using assms by (cases f rule: rev_cases) auto
  have t: "takeWhile (\<lambda>c. c \<noteq> CHR ''/'') (rev f) = rev f"
    using assms by (auto simp: takeWhile_eq_all_conv)
  show ?thesis by (simp add: final_component_def d t assms(2))
qed

subsection \<open>The mapping file\<close>

lemma map_members_eq:
  "map_members kvs m =
     (if list_all (\<lambda>kv. case snd kv of JString s \<Rightarrow> True | JNull \<Rightarrow> True | _ \<Rightarrow> False) kvs
      then Some (m ++ map_of (rev (map (\<lambda>kv. (fst kv, member_text (snd kv))) kvs)))
      else None)"
proof (induction kvs arbitrary: m)
  case Nil
  show ?case by simp
next
  case (Cons kv kvs)
  obtain k v where kv: "kv = (k, v)" by (cases kv)
  show ?case
  proof (cases "string_member v")
    case None
    then show ?thesis using kv by (cases v) simp_all
  next
    case (Some s)
    then have s: "s = member_text v"
      and ok: "(case v of JString s \<Rightarrow> True | JNull \<Rightarrow> True | _ \<Rightarrow> False)"
      by (cases v; simp add: member_text_def)+
    have step: "map_members (kv # kvs) m = map_members kvs (m(k \<mapsto> s))"
      using kv Some by simp
    have all: "list_all (\<lambda>kv. case snd kv of JString s \<Rightarrow> True | JNull \<Rightarrow> True | _ \<Rightarrow> False) (kv # kvs)
        = list_all (\<lambda>kv. case snd kv of JString s \<Rightarrow> True | JNull \<Rightarrow> True | _ \<Rightarrow> False) kvs"
      using ok kv by simp
    have eq: "m ++ map_of (rev (map (\<lambda>kv. (fst kv, member_text (snd kv))) (kv # kvs)))
        = m(k \<mapsto> s) ++ map_of (rev (map (\<lambda>kv. (fst kv, member_text (snd kv))) kvs))"
      using kv s by (auto simp: fun_eq_iff map_add_def split: option.splits)
    show ?thesis
      by (simp only: step all eq Cons.IH [of "m(k \<mapsto> s)"])
  qed
qed

lemma json_Unmarshal_eq:
  "json_Unmarshal lib data =
     (case Scan lib data of
        Inl e \<Rightarrow> Inl (JsonError e)
      | Inr v \<Rightarrow> if accepted_mapping v then Inr (mapping_table v)
                 else Inl (JsonError (case v of
                    JObject kvs \<Rightarrow> ''json: cannot unmarshal into Go value of type string''
                  | _ \<Rightarrow> ''json: cannot unmarshal into Go value of type map[string]string'')))"
  by (simp add: json_Unmarshal_def accepted_mapping_def mapping_table_def map_members_eq
      split: sum.splits json.splits)

subsection \<open>\<^verbatim>\<open>GetResponse\<close>, case by case\<close>

lemma GetResponse_Inr:
  assumes "GetResponse lib r req w = (Inr a, r', w')"
  obtains h where "fingerprint lib req = Inr h" and "cache r' h = Some a"
  using assms
  by (auto simp: GetResponse_def os_ReadFile_def proto_Clone_def protojson_Unmarshal_def
      split: sum.splits option.splits prod.splits if_splits)

lemma reads_grow:
  "GetResponse lib r req w = (res, r', w') \<Longrightarrow>
     reads w' = reads w \<or> (\<exists>p. reads w' = reads w @ [p])"
  by (auto simp: GetResponse_def os_ReadFile_def proto_Clone_def protojson_Unmarshal_def
      split: sum.splits option.splits prod.splits if_splits)

text \<open>
  A registered prototype that is nil: the artifact is read, the clone is nil, and the
  decoder panics on it. Nothing is stored.
\<close>

lemma nil_prototype_panics:
  "fingerprint lib req = Inr h \<Longrightarrow> cache r h = None \<Longrightarrow> Mapping r h = Some f \<Longrightarrow>
   files w (Join lib (ResponseDir r) f) = Some d \<Longrightarrow>
   ResponseTypes r (inferTypeName f) = Some p \<Longrightarrow> \<not> p < length (heap w) \<Longrightarrow>
     GetResponse lib r req w =
       (Inl NilPanic, r, w\<lparr>reads := reads w @ [Join lib (ResponseDir r) f]\<rparr>)"
  by (simp add: GetResponse_def os_ReadFile_def proto_Clone_def protojson_Unmarshal_def)

subsection \<open>The example, evaluated\<close>

lemma example_library_sel:
  "Marshal example_library = example_Marshal"
  "Unmarshal example_library = example_Unmarshal"
  "Join example_library dir name = dir @ ''/'' @ name"
  "Scan example_library = example_Scan"
  by (simp_all add: example_library_def)


lemma marshal_ada':
  "Marshal example_library request_ada' = Marshal example_library request_ada"
  by (simp add: example_library_sel example_Marshal_def request_ada_def request_ada'_def
      field_value_def)

text \<open>
  SHA-256 of the 24 bytes \<^verbatim>\<open>{"id":"42","name":"Ada"}\<close>, computed by the definitions above;
  the digest agrees with the value other implementations of SHA-256 give.
\<close>

lemma fingerprint_ada: "fingerprint example_library request_ada = Inr fp_ada"
  by code_simp

lemma fingerprint_ada': "fingerprint example_library request_ada' = Inr fp_ada"
  using fingerprint_ada by (simp add: fingerprint_def marshal_ada')


text \<open>SHA-256 of the 20 bytes \<^verbatim>\<open>{"id":"7","name":""}\<close>.\<close>

lemma fingerprint_bob: "fingerprint example_library request_bob = Inr fp_bob"
  by code_simp

lemma fingerprints_differ: "fp_bob \<noteq> fp_ada"
  by (simp add: fp_ada_def fp_bob_def)

lemma infer_GetUser: "inferTypeName ''GetUser.json'' = ''GetUser''"
  by code_simp

lemma infer_bad_GetUser: "inferTypeName ''bad/GetUser.json'' = ''GetUser''"
  by code_simp

lemma infer_bad_Account: "inferTypeName ''bad/Account.txt'' = ''Account''"
  by code_simp

lemma infer_Ghost: "inferTypeName ''Ghost.json'' = ''Ghost''"
  by code_simp

lemma infer_Missing: "inferTypeName ''Missing.json'' = ''Missing''"
  by code_simp

lemma infer_nested: "inferTypeName ''fixtures/v1.2/GetUser.json'' = ''GetUser''"
  by code_simp

lemma first_call:
  "GetResponse example_library (example_registry ''GetUser.json'') request_ada example_world =
     (Inr 1,
      (example_registry ''GetUser.json'')\<lparr>cache := [fp_ada \<mapsto> 1]\<rparr>,
      example_world\<lparr>reads := [''responses/GetUser.json''],
        heap := [(''GetUser'', []), (''GetUser'', ''{'' @ quoted ''id'' @ '':42}'')]\<rparr>)"
  by (simp add: GetResponse_def fingerprint_ada example_registry_def example_world_def
      example_library_sel os_ReadFile_def infer_GetUser example_types_def proto_Clone_def
      protojson_Unmarshal_def example_Unmarshal_def quoted_def)

lemma ghost_call:
  "GetResponse example_library (example_registry ''Ghost.json'') request_ada example_world =
     (Inl (Errorf ''unknown response type: Ghost''), example_registry ''Ghost.json'',
      example_world\<lparr>reads := [''responses/Ghost.json'']\<rparr>)"
  by (simp add: GetResponse_def fingerprint_ada example_registry_def example_world_def
      example_library_sel os_ReadFile_def infer_Ghost example_types_def)

lemma missing_call:
  "GetResponse example_library (example_registry ''Missing.json'') request_ada example_world =
     (Inl (PathError ''responses/Missing.json''), example_registry ''Missing.json'',
      example_world\<lparr>reads := [''responses/Missing.json'']\<rparr>)"
  by (simp add: GetResponse_def fingerprint_ada example_registry_def example_world_def
      example_library_sel os_ReadFile_def)

lemma bad_call:
  "GetResponse example_library (example_registry ''bad/GetUser.json'') request_ada example_world =
     (Inl (ProtoError ''proto: syntax error (line 1:1): unexpected token''),
      example_registry ''bad/GetUser.json'',
      example_world\<lparr>reads := [''responses/bad/GetUser.json''],
        heap := [(''GetUser'', []), (''GetUser'', [])]\<rparr>)"
  by (simp add: GetResponse_def fingerprint_ada example_registry_def example_world_def
      example_library_sel os_ReadFile_def infer_bad_GetUser example_types_def proto_Clone_def
      protojson_Unmarshal_def example_Unmarshal_def)

lemma account_call:
  "GetResponse example_library account_registry request_bob example_world =
     (Inl (ProtoError ''proto: syntax error (line 1:1): unexpected token''),
      account_registry,
      example_world\<lparr>reads := [''responses/bad/Account.txt''],
        heap := [(''GetUser'', []), (''GetUser'', [])]\<rparr>)"
  by (simp add: GetResponse_def fingerprint_bob account_registry_def example_world_def
      example_library_sel os_ReadFile_def infer_bad_Account proto_Clone_def
      protojson_Unmarshal_def example_Unmarshal_def)

lemma load_mapping:
  "LoadRegistry example_library ''mapping.json'' ''responses'' example_types example_world =
     (Inr (example_registry ''GetUser.json''), example_world\<lparr>reads := [''mapping.json'']\<rparr>)"
  by (simp add: LoadRegistry_def os_ReadFile_def example_world_def json_Unmarshal_def
      example_library_sel example_Scan_def mapping_text_def quoted_def example_registry_def)

lemma load_null:
  "LoadRegistry example_library ''null.json'' ''responses'' example_types example_world =
     (Inr \<lparr>Mapping = Map.empty, ResponseDir = ''responses'', ResponseTypes = example_types,
           cache = Map.empty\<rparr>, example_world\<lparr>reads := [''null.json'']\<rparr>)"
  by (simp add: LoadRegistry_def os_ReadFile_def example_world_def json_Unmarshal_def
      example_library_sel example_Scan_def mapping_text_def quoted_def)

section \<open>The claims\<close>

subsection \<open>The fingerprint\<close>



subsection \<open>The type name\<close>

text \<open>
  C6. For every artifact name, the type name \<open>inferTypeName\<close> derives is the final path
  component with its extension taken off; the slice of the source is always in range, so
  every name is accepted; and a name with no dot and no separator is its own type name.
\<close>

theorem inferTypeName_final_component:
  "inferTypeName f = strip_extension (final_component f) \<and>
   length (Ext (Base f)) \<le> length (Base f) \<and>
   (CHR ''.'' \<notin> set f \<and> CHR ''/'' \<notin> set f \<longrightarrow> inferTypeName f = f)"
proof -
  have "inferTypeName f = f" if "CHR ''.'' \<notin> set f" and "CHR ''/'' \<notin> set f"
  proof (cases "f = []")
    case True
    then show ?thesis
      by (simp add: inferTypeName_spec final_component_def strip_extension_def)
  next
    case False
    with that show ?thesis
      by (simp add: inferTypeName_spec plain_name strip_extension_def)
  qed
  then show ?thesis
    by (simp add: inferTypeName_spec length_Ext)
qed

text \<open>
  C6, at inputs: a name with no extension, and a name with directories and dots.
\<close>

theorem inferTypeName_final_component_witness:
  "CHR ''.'' \<notin> set ''Widget'' \<and> CHR ''/'' \<notin> set ''Widget'' \<and>
   inferTypeName ''Widget'' = ''Widget'' \<and>
   inferTypeName ''fixtures/v1.2/GetUser.json'' = ''GetUser'' \<and>
   strip_extension (final_component ''fixtures/v1.2/GetUser.json'') = ''GetUser''"
proof -
  have "CHR ''.'' \<notin> set ''Widget'' \<and> CHR ''/'' \<notin> set ''Widget'' \<longrightarrow>
      inferTypeName ''Widget'' = ''Widget''"
    using inferTypeName_final_component [of "''Widget''"] by blast
  then have plain: "inferTypeName ''Widget'' = ''Widget''"
    by simp
  have "inferTypeName ''fixtures/v1.2/GetUser.json''
      = strip_extension (final_component ''fixtures/v1.2/GetUser.json'')"
    using inferTypeName_final_component [of "''fixtures/v1.2/GetUser.json''"] by blast
  then have nested: "strip_extension (final_component ''fixtures/v1.2/GetUser.json'') = ''GetUser''"
    by (simp add: infer_nested)
  show ?thesis
    by (simp add: plain nested infer_nested)
qed

subsection \<open>\<^verbatim>\<open>GetResponse\<close>\<close>

text \<open>
  C3. A request whose fingerprint is neither in the cache nor in the mapping fails with the
  error \<^verbatim>\<open>no mock response found for hash: \<close> followed by the fingerprint; the registry and
  the world are as before, so no file was read.
\<close>

theorem not_found_no_io:
  "fingerprint lib req = Inr h \<Longrightarrow> cache r h = None \<Longrightarrow> Mapping r h = None \<Longrightarrow>
     GetResponse lib r req w =
       (Inl (Errorf (''no mock response found for hash: '' @ h)), r, w)"
  by (simp add: GetResponse_def)

text \<open>
  C3, at an input: the registry of the example, and a request whose fingerprint it does not
  map.
\<close>

theorem not_found_no_io_witness:
  "fingerprint example_library request_bob = Inr fp_bob \<and>
   cache (example_registry ''GetUser.json'') fp_bob = None \<and>
   Mapping (example_registry ''GetUser.json'') fp_bob = None \<and>
   GetResponse example_library (example_registry ''GetUser.json'') request_bob example_world =
     (Inl (Errorf (''no mock response found for hash: '' @ fp_bob)),
      example_registry ''GetUser.json'', example_world)"
  using not_found_no_io [of example_library request_bob fp_bob
      "example_registry ''GetUser.json''" example_world]
    fingerprint_bob fingerprints_differ
  by (simp add: example_registry_def)

text \<open>
  C4. After a call that succeeded, a call with a request of the same fingerprint returns
  the same message and leaves the registry and the world as they are: no file is read and
  no message is touched. The first call read at most one file.
\<close>

theorem cache_reuse:
  "GetResponse lib r req1 w = (Inr a, r1, w1) \<Longrightarrow>
   fingerprint lib req2 = fingerprint lib req1 \<Longrightarrow>
     GetResponse lib r1 req2 w1 = (Inr a, r1, w1) \<and>
     (reads w1 = reads w \<or> (\<exists>p. reads w1 = reads w @ [p]))"
proof -
  assume first: "GetResponse lib r req1 w = (Inr a, r1, w1)"
    and same: "fingerprint lib req2 = fingerprint lib req1"
  from first obtain h where "fingerprint lib req1 = Inr h" and "cache r1 h = Some a"
    by (rule GetResponse_Inr)
  with same have "GetResponse lib r1 req2 w1 = (Inr a, r1, w1)"
    by (simp add: GetResponse_def)
  with reads_grow [OF first] show ?thesis by simp
qed

text \<open>
  C4, at an input: the example's request, then the same fields in the other order.
\<close>

theorem cache_reuse_witness:
  "GetResponse example_library (example_registry ''GetUser.json'') request_ada example_world =
     (Inr 1, (example_registry ''GetUser.json'')\<lparr>cache := [fp_ada \<mapsto> 1]\<rparr>,
      example_world\<lparr>reads := [''responses/GetUser.json''],
        heap := [(''GetUser'', []), (''GetUser'', ''{'' @ quoted ''id'' @ '':42}'')]\<rparr>) \<and>
   fingerprint example_library request_ada' = fingerprint example_library request_ada \<and>
   GetResponse example_library ((example_registry ''GetUser.json'')\<lparr>cache := [fp_ada \<mapsto> 1]\<rparr>)
       request_ada'
       (example_world\<lparr>reads := [''responses/GetUser.json''],
          heap := [(''GetUser'', []), (''GetUser'', ''{'' @ quoted ''id'' @ '':42}'')]\<rparr>) =
     (Inr 1, (example_registry ''GetUser.json'')\<lparr>cache := [fp_ada \<mapsto> 1]\<rparr>,
      example_world\<lparr>reads := [''responses/GetUser.json''],
        heap := [(''GetUser'', []), (''GetUser'', ''{'' @ quoted ''id'' @ '':42}'')]\<rparr>)"
proof -
  have same: "fingerprint example_library request_ada' = fingerprint example_library request_ada"
    by (simp add: fingerprint_ada fingerprint_ada')
  from cache_reuse [OF first_call same] first_call same show ?thesis
    by blast
qed

text \<open>
  C5. A call that succeeds leaves every prototype of the type registry as it was, and the
  type registry itself. When the call was a cache miss, the message it returns is a new
  cell, one that did not exist before the call and so none of the prototypes, holding what
  the decoder made of a copy of the resolved prototype.
\<close>

theorem prototypes_unchanged:
  "GetResponse lib r req w = (Inr a, r', w') \<Longrightarrow> prototypes_allocated r w \<Longrightarrow>
     ResponseTypes r' = ResponseTypes r \<and>
     (\<forall>t p. ResponseTypes r t = Some p \<longrightarrow> heap w' ! p = heap w ! p) \<and>
     (\<forall>h. fingerprint lib req = Inr h \<and> cache r h = None \<longrightarrow>
        a = length (heap w) \<and>
        (\<exists>f d p. Mapping r h = Some f \<and> files w (Join lib (ResponseDir r) f) = Some d \<and>
           ResponseTypes r (inferTypeName f) = Some p \<and>
           heap w' = heap w @ [snd (Unmarshal lib d (heap w ! p))]))"
  unfolding prototypes_allocated_def
  by (auto simp: GetResponse_def os_ReadFile_def proto_Clone_def protojson_Unmarshal_def
      nth_append split: sum.splits option.splits prod.splits if_splits)

text \<open>
  C5, at an input: the first call of the example. The prototype in cell 0 is as before,
  the message returned is the new cell 1.
\<close>

theorem prototypes_unchanged_witness:
  "prototypes_allocated (example_registry ''GetUser.json'') example_world \<and>
   fst (GetResponse example_library (example_registry ''GetUser.json'') request_ada
          example_world) = Inr 1 \<and>
   length (heap example_world) = 1 \<and>
   ResponseTypes (example_registry ''GetUser.json'') ''GetUser'' = Some 0 \<and>
   heap (snd (snd (GetResponse example_library (example_registry ''GetUser.json'') request_ada
          example_world))) ! 0 = heap example_world ! 0"
proof -
  have alloc: "prototypes_allocated (example_registry ''GetUser.json'') example_world"
    by (simp add: prototypes_allocated_def example_registry_def example_types_def
        example_world_def)
  have proto: "ResponseTypes (example_registry ''GetUser.json'') ''GetUser'' = Some 0"
    by (simp add: example_registry_def example_types_def)
  from prototypes_unchanged [OF first_call alloc] proto
  have "heap (example_world\<lparr>reads := [''responses/GetUser.json''],
        heap := [(''GetUser'', []), (''GetUser'', ''{'' @ quoted ''id'' @ '':42}'')]\<rparr>) ! 0
      = heap example_world ! 0"
    by blast
  then have frame: "heap (snd (snd (GetResponse example_library
      (example_registry ''GetUser.json'') request_ada example_world))) ! 0 = heap example_world ! 0"
    by (simp only: first_call snd_conv)
  have returned: "fst (GetResponse example_library (example_registry ''GetUser.json'')
      request_ada example_world) = Inr 1"
    by (simp only: first_call fst_conv)
  have size: "length (heap example_world) = 1"
    by (simp add: example_world_def)
  from alloc returned size proto frame show ?thesis
    by blast
qed

text \<open>
  C10. A call that returns an error returns the registry as it was, its cache with it. A
  call that returns a message \<open>a\<close> returns the registry with \<open>a\<close> under the request's
  fingerprint in the cache (on a hit it was there already) and nothing else changed.
\<close>

theorem cache_unchanged_on_error:
  "GetResponse lib r req w = (res, r', w') \<Longrightarrow>
     (\<forall>e. res = Inl e \<longrightarrow> r' = r) \<and>
     (\<forall>a. res = Inr a \<longrightarrow>
        (\<exists>h. fingerprint lib req = Inr h \<and> r' = r\<lparr>cache := (cache r)(h \<mapsto> a)\<rparr>))"
  by (auto simp: GetResponse_def os_ReadFile_def proto_Clone_def protojson_Unmarshal_def
      map_upd_triv split: sum.splits option.splits prod.splits if_splits)

text \<open>
  C10, at an input: the call of the example that fails in the decoder.
\<close>

theorem cache_unchanged_on_error_witness:
  "fst (GetResponse example_library (example_registry ''bad/GetUser.json'') request_ada
          example_world) = Inl (ProtoError ''proto: syntax error (line 1:1): unexpected token'') \<and>
   fst (snd (GetResponse example_library (example_registry ''bad/GetUser.json'') request_ada
          example_world)) = example_registry ''bad/GetUser.json'' \<and>
   cache (example_registry ''bad/GetUser.json'') fp_ada = None"
  using cache_unchanged_on_error [OF bad_call]
  by (simp add: bad_call) (simp add: example_registry_def)

text \<open>
  C2, as the spec has it: on a cache miss with a mapped fingerprint, the type name is looked
  up before the artifact is read, so that a call with an unknown type fails with the
  unknown-type error and reads no file. The code reads first. In the example world the
  artifact \<^verbatim>\<open>Ghost.json\<close> exists and no type \<open>Ghost\<close> is registered: the call fails with the
  unknown-type error, and the read log, empty before, holds the artifact's path. The
  artifact \<^verbatim>\<open>Missing.json\<close> does not exist and no type \<open>Missing\<close> is registered: the call
  fails with the error of the read, not with the unknown-type error.
\<close>

theorem unknown_type_without_read_counterexample:
  "fingerprint example_library request_ada = Inr fp_ada \<and>
   cache (example_registry ''Ghost.json'') fp_ada = None \<and>
   Mapping (example_registry ''Ghost.json'') fp_ada = Some ''Ghost.json'' \<and>
   ResponseTypes (example_registry ''Ghost.json'') (inferTypeName ''Ghost.json'') = None \<and>
   reads example_world = [] \<and>
   GetResponse example_library (example_registry ''Ghost.json'') request_ada example_world =
     (Inl (Errorf ''unknown response type: Ghost''), example_registry ''Ghost.json'',
      example_world\<lparr>reads := [''responses/Ghost.json'']\<rparr>) \<and>
   Mapping (example_registry ''Missing.json'') fp_ada = Some ''Missing.json'' \<and>
   ResponseTypes (example_registry ''Missing.json'') (inferTypeName ''Missing.json'') = None \<and>
   GetResponse example_library (example_registry ''Missing.json'') request_ada example_world =
     (Inl (PathError ''responses/Missing.json''), example_registry ''Missing.json'',
      example_world\<lparr>reads := [''responses/Missing.json'']\<rparr>)"
  by (simp add: fingerprint_ada ghost_call missing_call infer_Ghost infer_Missing)
    (simp add: example_registry_def example_types_def example_world_def)

text \<open>
  C2, amended: on a cache miss with a mapped fingerprint and a type name that is not
  registered, the call reads the artifact first, which is its one read; it fails with the
  unknown-type error, naming the type, when the read succeeds, and with the error of the
  read when it fails. The registry and the heap are as before.
\<close>

theorem unknown_type_after_read:
  "fingerprint lib req = Inr h \<Longrightarrow> cache r h = None \<Longrightarrow> Mapping r h = Some f \<Longrightarrow>
   ResponseTypes r (inferTypeName f) = None \<Longrightarrow>
     GetResponse lib r req w =
       ((case files w (Join lib (ResponseDir r) f) of
           None \<Rightarrow> Inl (PathError (Join lib (ResponseDir r) f))
         | Some d \<Rightarrow> Inl (Errorf (''unknown response type: '' @ inferTypeName f))),
        r, w\<lparr>reads := reads w @ [Join lib (ResponseDir r) f]\<rparr>)"
  by (simp add: GetResponse_def os_ReadFile_def split: option.splits)

text \<open>
  C2 amended, at an input: the artifact \<^verbatim>\<open>Ghost.json\<close> of the example.
\<close>

theorem unknown_type_after_read_witness:
  "fingerprint example_library request_ada = Inr fp_ada \<and>
   cache (example_registry ''Ghost.json'') fp_ada = None \<and>
   Mapping (example_registry ''Ghost.json'') fp_ada = Some ''Ghost.json'' \<and>
   ResponseTypes (example_registry ''Ghost.json'') (inferTypeName ''Ghost.json'') = None \<and>
   files example_world (Join example_library (ResponseDir (example_registry ''Ghost.json''))
     ''Ghost.json'') = Some ''{}'' \<and>
   GetResponse example_library (example_registry ''Ghost.json'') request_ada example_world =
     (Inl (Errorf (''unknown response type: '' @ inferTypeName ''Ghost.json'')),
      example_registry ''Ghost.json'',
      example_world\<lparr>reads := reads example_world @ [''responses/Ghost.json'']\<rparr>)"
proof -
  have c: "cache (example_registry ''Ghost.json'') fp_ada = None"
    and m: "Mapping (example_registry ''Ghost.json'') fp_ada = Some ''Ghost.json''"
    and t: "ResponseTypes (example_registry ''Ghost.json'') (inferTypeName ''Ghost.json'') = None"
    by (simp_all add: example_registry_def example_types_def infer_Ghost)
  have p: "Join example_library (ResponseDir (example_registry ''Ghost.json'')) ''Ghost.json''
      = ''responses/Ghost.json''"
    by (simp add: example_library_sel example_registry_def)
  have d: "files example_world ''responses/Ghost.json'' = Some ''{}''"
    by (simp add: example_world_def)
  from unknown_type_after_read [OF fingerprint_ada c m t, of example_world]
  have "GetResponse example_library (example_registry ''Ghost.json'') request_ada example_world =
     (Inl (Errorf (''unknown response type: '' @ inferTypeName ''Ghost.json'')),
      example_registry ''Ghost.json'',
      example_world\<lparr>reads := reads example_world @ [''responses/Ghost.json'']\<rparr>)"
    by (simp only: p d option.case)
  with fingerprint_ada c m t p d show ?thesis
    by (simp only: simp_thms)
qed

text \<open>
  C8, as the spec has it: a call that fails in the decoder fails with an error that carries
  the artifact name, or at least the fingerprint or the type name. The code returns the
  decoder's error as it is, and the decoder is given the bytes and the clone only. In the
  example world two calls differ in the request and its fingerprint, in the artifact name
  and in the type name; the artifacts hold the same bytes, which the decoder rejects, and
  the types have the same prototype. The two calls return one and the same error.
\<close>

theorem decode_error_names_artifact_counterexample:
  "fingerprint example_library request_ada = Inr fp_ada \<and>
   fingerprint example_library request_bob = Inr fp_bob \<and>
   fp_bob \<noteq> fp_ada \<and>
   Mapping (example_registry ''bad/GetUser.json'') fp_ada = Some ''bad/GetUser.json'' \<and>
   Mapping account_registry fp_bob = Some ''bad/Account.txt'' \<and>
   inferTypeName ''bad/GetUser.json'' = ''GetUser'' \<and>
   inferTypeName ''bad/Account.txt'' = ''Account'' \<and>
   fst (GetResponse example_library (example_registry ''bad/GetUser.json'') request_ada
          example_world) =
     Inl (ProtoError ''proto: syntax error (line 1:1): unexpected token'') \<and>
   fst (GetResponse example_library account_registry request_bob example_world) =
     Inl (ProtoError ''proto: syntax error (line 1:1): unexpected token'')"
  by (simp add: bad_call account_call fingerprint_ada fingerprint_bob fingerprints_differ
      infer_bad_GetUser infer_bad_Account)
    (simp add: example_registry_def account_registry_def)

text \<open>
  C8, amended: when the artifact is read and its type resolved to a prototype that is a
  live message, and the decoder rejects the bytes, the call fails with the decoder's error
  \<open>e\<close> as it is, which depends on the bytes and on the prototype's content only; the
  registry is as before, the world has the one read and the discarded clone. (With a nil
  prototype the call panics: \<open>nil_prototype_panics\<close>.)
\<close>

theorem decode_error_unwrapped:
  "fingerprint lib req = Inr h \<Longrightarrow> cache r h = None \<Longrightarrow> Mapping r h = Some f \<Longrightarrow>
   files w (Join lib (ResponseDir r) f) = Some d \<Longrightarrow>
   ResponseTypes r (inferTypeName f) = Some p \<Longrightarrow>
   prototypes_allocated r w \<Longrightarrow>
   Unmarshal lib d (heap w ! p) = (Some e, m) \<Longrightarrow>
     GetResponse lib r req w =
       (Inl (ProtoError e), r,
        w\<lparr>reads := reads w @ [Join lib (ResponseDir r) f], heap := heap w @ [m]\<rparr>)"
proof -
  assume "ResponseTypes r (inferTypeName f) = Some p" and "prototypes_allocated r w"
  then have live: "p < length (heap w)"
    by (simp add: prototypes_allocated_def)
  assume "fingerprint lib req = Inr h" and "cache r h = None" and "Mapping r h = Some f"
    and "files w (Join lib (ResponseDir r) f) = Some d"
    and "ResponseTypes r (inferTypeName f) = Some p"
    and "Unmarshal lib d (heap w ! p) = (Some e, m)"
  with live show ?thesis
    by (simp add: GetResponse_def os_ReadFile_def proto_Clone_def protojson_Unmarshal_def)
qed

text \<open>
  C8 amended, at an input: the artifact \<^verbatim>\<open>bad/GetUser.json\<close> of the example.
\<close>

theorem decode_error_unwrapped_witness:
  "fingerprint example_library request_ada = Inr fp_ada \<and>
   cache (example_registry ''bad/GetUser.json'') fp_ada = None \<and>
   Mapping (example_registry ''bad/GetUser.json'') fp_ada = Some ''bad/GetUser.json'' \<and>
   files example_world ''responses/bad/GetUser.json'' = Some ''<html>'' \<and>
   ResponseTypes (example_registry ''bad/GetUser.json'') ''GetUser'' = Some 0 \<and>
   prototypes_allocated (example_registry ''bad/GetUser.json'') example_world \<and>
   Unmarshal example_library ''<html>'' (heap example_world ! 0) =
     (Some ''proto: syntax error (line 1:1): unexpected token'', (''GetUser'', [])) \<and>
   GetResponse example_library (example_registry ''bad/GetUser.json'') request_ada example_world =
     (Inl (ProtoError ''proto: syntax error (line 1:1): unexpected token''),
      example_registry ''bad/GetUser.json'',
      example_world\<lparr>reads := reads example_world @ [''responses/bad/GetUser.json''],
        heap := heap example_world @ [(''GetUser'', [])]\<rparr>)"
proof -
  have c: "cache (example_registry ''bad/GetUser.json'') fp_ada = None"
    and m: "Mapping (example_registry ''bad/GetUser.json'') fp_ada = Some ''bad/GetUser.json''"
    by (simp_all add: example_registry_def)
  have p: "Join example_library (ResponseDir (example_registry ''bad/GetUser.json''))
      ''bad/GetUser.json'' = ''responses/bad/GetUser.json''"
    by (simp add: example_library_sel example_registry_def)
  have d: "files example_world ''responses/bad/GetUser.json'' = Some ''<html>''"
    by (simp add: example_world_def)
  have t: "ResponseTypes (example_registry ''bad/GetUser.json'') ''GetUser'' = Some 0"
    by (simp add: example_registry_def example_types_def)
  have u: "Unmarshal example_library ''<html>'' (heap example_world ! 0) =
     (Some ''proto: syntax error (line 1:1): unexpected token'', (''GetUser'', []))"
    by (simp add: example_library_sel example_Unmarshal_def example_world_def)
  have a: "prototypes_allocated (example_registry ''bad/GetUser.json'') example_world"
    by (simp add: prototypes_allocated_def example_registry_def example_types_def
        example_world_def)
  have "GetResponse example_library (example_registry ''bad/GetUser.json'') request_ada
      example_world =
     (Inl (ProtoError ''proto: syntax error (line 1:1): unexpected token''),
      example_registry ''bad/GetUser.json'',
      example_world\<lparr>reads := reads example_world @ [''responses/bad/GetUser.json''],
        heap := heap example_world @ [(''GetUser'', [])]\<rparr>)"
    using decode_error_unwrapped [OF fingerprint_ada c m, of example_world "''<html>''" 0
        "''proto: syntax error (line 1:1): unexpected token''" "(''GetUser'', [])"]
      d t u a
    by (simp only: p infer_bad_GetUser simp_thms)
  with fingerprint_ada c m d t u a show ?thesis
    by (simp only: simp_thms)
qed

subsection \<open>\<^verbatim>\<open>LoadRegistry\<close>\<close>

text \<open>
  C7, as the spec has it: \<open>LoadRegistry\<close> fails exactly when the mapping file is unreadable
  or is no flat JSON object of string to string pairs. A mapping file that holds the JSON
  value \<^verbatim>\<open>null\<close> is no object, and \<open>LoadRegistry\<close> succeeds on it, with an empty mapping.
\<close>

theorem load_fails_unless_object_counterexample:
  "files example_world ''null.json'' = Some ''null'' \<and>
   Scan example_library ''null'' = Inr JNull \<and>
   \<not> flat_string_object JNull \<and>
   LoadRegistry example_library ''null.json'' ''responses'' example_types example_world =
     (Inr \<lparr>Mapping = Map.empty, ResponseDir = ''responses'', ResponseTypes = example_types,
           cache = Map.empty\<rparr>, example_world\<lparr>reads := [''null.json'']\<rparr>)"
  by (simp add: load_null)
    (simp add: example_world_def example_library_sel example_Scan_def flat_string_object_def)

text \<open>
  C7, amended: \<open>LoadRegistry\<close> fails exactly when the mapping file is unreadable, or its
  bytes are no JSON, or the JSON value is neither \<^verbatim>\<open>null\<close> nor an object whose member
  values are all strings or \<^verbatim>\<open>null\<close>. On success the registry has the table of the
  file's members (a \<^verbatim>\<open>null\<close> member as the empty name, the table empty for \<^verbatim>\<open>null\<close>), the
  directory and the types it was given and an empty cache. Either way the world differs
  only by the one read of the mapping file in the log: no artifact is read.
\<close>

theorem LoadRegistry_outcome:
  "LoadRegistry lib path dir types w = (res, w') \<Longrightarrow>
     w' = w\<lparr>reads := reads w @ [path]\<rparr> \<and>
     (isl res \<longleftrightarrow>
        (case files w path of
           None \<Rightarrow> True
         | Some d \<Rightarrow> (case Scan lib d of Inl e \<Rightarrow> True | Inr v \<Rightarrow> \<not> accepted_mapping v))) \<and>
     (\<forall>reg. res = Inr reg \<longrightarrow>
        (\<exists>d v. files w path = Some d \<and> Scan lib d = Inr v \<and>
           reg = \<lparr>Mapping = mapping_table v, ResponseDir = dir,
                   ResponseTypes = types, cache = Map.empty\<rparr>))"
  by (auto simp: LoadRegistry_def os_ReadFile_def json_Unmarshal_eq
      split: option.splits sum.splits if_splits)

text \<open>
  C7 amended, at an input: the mapping file of the example, which gives the registry of
  the example.
\<close>

theorem LoadRegistry_outcome_witness:
  "LoadRegistry example_library ''mapping.json'' ''responses'' example_types example_world =
     (Inr (example_registry ''GetUser.json''), example_world\<lparr>reads := [''mapping.json'']\<rparr>) \<and>
   files example_world ''mapping.json'' = Some mapping_text \<and>
   Scan example_library mapping_text = Inr (JObject [(fp_ada, JString ''GetUser.json'')]) \<and>
   accepted_mapping (JObject [(fp_ada, JString ''GetUser.json'')]) \<and>
   Mapping (example_registry ''GetUser.json'') =
     mapping_table (JObject [(fp_ada, JString ''GetUser.json'')]) \<and>
   reads example_world = []"
proof -
  have f: "files example_world ''mapping.json'' = Some mapping_text"
    and r: "reads example_world = []"
    by (simp_all add: example_world_def)
  have s: "Scan example_library mapping_text = Inr (JObject [(fp_ada, JString ''GetUser.json'')])"
    by (simp add: example_library_sel example_Scan_def mapping_text_def quoted_def)
  from LoadRegistry_outcome [OF load_mapping]
  have "(\<not> isl (Inr (example_registry ''GetUser.json'') :: error + registry)) =
          accepted_mapping (JObject [(fp_ada, JString ''GetUser.json'')])"
    and "\<exists>d v. files example_world ''mapping.json'' = Some d \<and> Scan example_library d = Inr v \<and>
           example_registry ''GetUser.json'' = \<lparr>Mapping = mapping_table v,
             ResponseDir = ''responses'', ResponseTypes = example_types, cache = Map.empty\<rparr>"
    by (simp_all add: f s)
  then have a: "accepted_mapping (JObject [(fp_ada, JString ''GetUser.json'')])"
    and t: "Mapping (example_registry ''GetUser.json'') =
       mapping_table (JObject [(fp_ada, JString ''GetUser.json'')])"
    by (auto simp: f s)
  from load_mapping f s a t r show ?thesis
    by (simp only: simp_thms)
qed

end
